theory Spec2Isabelle
  imports Complex_Main
begin

section \<open>Problem ids\<close>

text \<open>
  Problem ids are strings of the form \<open>{sweep_name}{SEPARATOR}{index}\<close>, where the index
  is rendered by a Python f-string, that is, as the decimal digits of a
  non-negative integer (the indices come from \<open>enumerate\<close>).
\<close>

definition SEPARATOR :: string where
  "SEPARATOR = ''/''"

definition digit_char :: "nat \<Rightarrow> char" where
  "digit_char d = ''0123456789'' ! d"

function str_nat :: "nat \<Rightarrow> string" where
  "str_nat n =
     (if n < 10 then [digit_char n] else str_nat (n div 10) @ [digit_char (n mod 10)])"
  by pat_completeness auto
termination
  by (relation "measure id") auto

declare str_nat.simps [simp del]

definition problem_id :: "string \<Rightarrow> nat \<Rightarrow> string" where
  "problem_id name i = name @ SEPARATOR @ str_nat i"

text \<open>Reading a digit string back; used to show that distinct indices give distinct ids.\<close>

definition nat_of_digits :: "string \<Rightarrow> nat" where
  "nat_of_digits s = fold (\<lambda>c acc. 10 * acc + (of_char c - 48)) s 0"

section \<open>Dictionaries\<close>

text \<open>
  A Python \<open>dict\<close> keeps its keys in insertion order; storing under a key that is
  already present replaces the value and leaves the key where it was. Sweeps are listed
  with \<open>.values()\<close> and \<open>.keys()\<close>, so the order is part of the model: a dictionary is an
  association list.
\<close>

type_synonym 'v dict = "(string \<times> 'v) list"

fun dict_set :: "string \<Rightarrow> 'v \<Rightarrow> 'v dict \<Rightarrow> 'v dict" where
  "dict_set k v [] = [(k, v)]"
| "dict_set k v ((k', v') # d) =
     (if k' = k then (k', v) # d else (k', v') # dict_set k v d)"

definition dict_of_items :: "(string \<times> 'v) list \<Rightarrow> 'v dict" where
  "dict_of_items kvs = fold (\<lambda>(k, v) d. dict_set k v d) kvs []"


definition dict_keys :: "'v dict \<Rightarrow> string list" where
  "dict_keys d = map fst d"

definition dict_values :: "'v dict \<Rightarrow> 'v list" where
  "dict_values d = map snd d"

text \<open>
  The comprehension \<open>{f'name{SEPARATOR}{i}': v for i, v in enumerate(configs)}\<close> that
  ends the sweep functions.
\<close>

definition sweep_dict :: "string \<Rightarrow> 'v list \<Rightarrow> 'v dict" where
  "sweep_dict name configs =
     dict_of_items (map (\<lambda>(i, v). (problem_id name i, v)) (List.enumerate 0 configs))"

text \<open>\<open>range(num_seed)\<close>: empty when \<open>num_seed\<close> is not positive.\<close>

definition range_py :: "int \<Rightarrow> nat list" where
  "range_py n = [0..<nat n]"

section \<open>Configuration records\<close>

text \<open>
  \<open>base.PriorKnowledge\<close> is declared outside \<open>sweep.py\<close>. The record has the fields the
  sweeps pass or read. A call that omits a keyword leaves the field at the default of the
  declaration; the sweep functions below therefore take the defaults as a parameter
  \<open>pk0\<close> and a constructor call is an update of \<open>pk0\<close>. The two fields that some call
  omits are optional floats.

  Float literals are modelled by their decimal value as reals; the sweeps only store
  them and compare them for equality with the same literals.
\<close>

record PriorKnowledge =
  input_dim :: int
  num_train :: int
  tau :: int
  num_classes :: int
  layers :: int
  noise_std :: "real option"
  temperature :: "real option"

text \<open>The two samplers of \<open>generative\<close> used as \<open>test_distribution\<close>, compared by identity.\<close>

datatype test_dist_ctor = make_gaussian_sampler | make_polyadic_sampler

typedecl LogitCtor

record ProblemConfig =
  prior_knowledge :: PriorKnowledge
  seed :: int
  logit_ctor :: "LogitCtor option"
  test_distribution :: test_dist_ctor
  num_test_seeds :: int
  num_enn_samples :: int
  num_test_cache :: int
  epistemic_only :: bool

text \<open>\<open>ProblemConfig(prior_knowledge, seed)\<close> with every other field at its declared default.\<close>

definition new_ProblemConfig :: "PriorKnowledge \<Rightarrow> int \<Rightarrow> ProblemConfig" where
  "new_ProblemConfig pk s =
     \<lparr>prior_knowledge = pk, seed = s, logit_ctor = None,
      test_distribution = make_gaussian_sampler, num_test_seeds = 1000,
      num_enn_samples = 1000, num_test_cache = 1000, epistemic_only = False\<rparr>"

section \<open>The sweeps of \<open>leaderboard/sweep.py\<close>\<close>

subsection \<open>Filtering to unique configurations\<close>

text \<open>
  The loop of \<open>_filter_unique_configs\<close> on the state \<open>(observed_configs, new_configs)\<close>.
  The dataclasses are frozen, so membership in the set is equality of all fields.
\<close>

definition filter_unique_step ::
  "('c \<Rightarrow> bool) \<Rightarrow> 'c \<Rightarrow> 'c set \<times> 'c list \<Rightarrow> 'c set \<times> 'c list" where
  "filter_unique_step filter_fn problem_config = (\<lambda>(observed_configs, new_configs).
     if filter_fn problem_config then
       (if problem_config \<notin> observed_configs
        then (insert problem_config observed_configs, new_configs @ [problem_config])
        else (observed_configs, new_configs))
     else (observed_configs, new_configs))"

definition filter_unique_configs :: "'c list \<Rightarrow> ('c \<Rightarrow> bool) \<Rightarrow> 'c list" where
  "filter_unique_configs configs filter_fn =
     snd (fold (filter_unique_step filter_fn) configs ({}, []))"

subsection \<open>Regression\<close>

text \<open>The body of the innermost loop, on the loop state \<open>(configs, seed)\<close>.\<close>

definition regression_sweep_body ::
  "PriorKnowledge \<Rightarrow> int \<Rightarrow> int \<Rightarrow> real \<Rightarrow> ProblemConfig list \<times> int \<Rightarrow> ProblemConfig list \<times> int"
where
  "regression_sweep_body pk0 input_dim' data_ratio noise_std' = (\<lambda>(configs, seed0).
     let seed' = seed0 + 1;
         num_train' = data_ratio * input_dim';
         prior = pk0\<lparr>input_dim := input_dim', num_train := num_train',
                     noise_std := Some noise_std', num_classes := 1, tau := 1, layers := 1\<rparr>
     in (configs @ [(new_ProblemConfig prior seed')\<lparr>num_enn_samples := 100\<rparr>], seed'))"

definition regression_configs :: "PriorKnowledge \<Rightarrow> int \<Rightarrow> int \<Rightarrow> ProblemConfig list" where
  "regression_configs pk0 num_seed initial_seed =
     fst (fold (\<lambda>input_dim'.
            fold (\<lambda>data_ratio.
              fold (\<lambda>noise_std'.
                fold (\<lambda>unused_seed_inc. regression_sweep_body pk0 input_dim' data_ratio noise_std')
                  (range_py num_seed))
                [1 / 100, 1 / 10, 1])
              [1, 10, 100])
            [1, 10, 100]
          ([], initial_seed))"

definition regression_sweep :: "PriorKnowledge \<Rightarrow> int \<Rightarrow> int \<Rightarrow> ProblemConfig dict" where
  "regression_sweep pk0 num_seed initial_seed =
     sweep_dict ''regression'' (regression_configs pk0 num_seed initial_seed)"

definition regression_test_sweep :: "PriorKnowledge \<Rightarrow> ProblemConfig dict" where
  "regression_test_sweep pk0 =
     (let full_configs = dict_values (regression_sweep pk0 1 0);
          configs = filter_unique_configs full_configs
            (\<lambda>x. noise_std (prior_knowledge x) = Some (1 / 10)
                 \<and> input_dim (prior_knowledge x) = 10
                 \<and> num_train (prior_knowledge x) = 10
                 \<and> tau (prior_knowledge x) = 1)
      in sweep_dict ''regression_test'' configs)"

subsection \<open>Classification\<close>

definition classification_sweep_body ::
  "PriorKnowledge \<Rightarrow> int \<Rightarrow> int \<Rightarrow> int \<Rightarrow> real \<Rightarrow> ProblemConfig list \<times> int \<Rightarrow> ProblemConfig list \<times> int"
where
  "classification_sweep_body pk0 tau' input_dim' data_ratio temperature' = (\<lambda>(configs, seed0).
     let seed' = seed0 + 1;
         num_train' = data_ratio * input_dim';
         prior = pk0\<lparr>input_dim := input_dim', num_train := num_train', num_classes := 2,
                     tau := tau', layers := 2, temperature := Some temperature'\<rparr>
     in (configs @ [(new_ProblemConfig prior seed')\<lparr>test_distribution := make_polyadic_sampler\<rparr>],
         seed'))"

text \<open>
  The outer loop carries \<open>configs\<close> only: \<open>seed = initial_seed\<close> is the first statement of
  every \<open>tau\<close> iteration.
\<close>

definition classification_configs :: "PriorKnowledge \<Rightarrow> int \<Rightarrow> int \<Rightarrow> ProblemConfig list" where
  "classification_configs pk0 num_seed initial_seed =
     fold (\<lambda>tau' configs.
        fst (fold (\<lambda>input_dim'.
               fold (\<lambda>data_ratio.
                 fold (\<lambda>temperature'.
                   fold (\<lambda>unused_seed_inc.
                           classification_sweep_body pk0 tau' input_dim' data_ratio temperature')
                     (range_py num_seed))
                   [1 / 100, 1 / 10, 1 / 2])
                 [1, 10, 100, 1000])
               [2, 10, 100]
             (configs, initial_seed)))
       [1, 10] []"

definition classification_sweep :: "PriorKnowledge \<Rightarrow> int \<Rightarrow> int \<Rightarrow> ProblemConfig dict" where
  "classification_sweep pk0 num_seed initial_seed =
     sweep_dict ''classification'' (classification_configs pk0 num_seed initial_seed)"

definition classification_test_sweep :: "PriorKnowledge \<Rightarrow> ProblemConfig dict" where
  "classification_test_sweep pk0 =
     (let full_configs = dict_values (classification_sweep pk0 1 0);
          configs = filter_unique_configs full_configs
            (\<lambda>x. temperature (prior_knowledge x) = Some (1 / 100)
                 \<and> tau (prior_knowledge x) = 1
                 \<and> input_dim (prior_knowledge x) = 2)
      in sweep_dict ''classification_test'' configs)"

subsection \<open>Two-dimensional classification\<close>

definition classification_2d_sweep_body ::
  "PriorKnowledge \<Rightarrow> int \<Rightarrow> int \<Rightarrow> real \<Rightarrow> ProblemConfig list \<times> int \<Rightarrow> ProblemConfig list \<times> int"
where
  "classification_2d_sweep_body pk0 tau' num_train' temperature' = (\<lambda>(configs, seed0).
     let seed' = seed0 + 1;
         prior = pk0\<lparr>input_dim := 2, num_train := num_train', num_classes := 2,
                     tau := tau', layers := 2, temperature := Some temperature'\<rparr>
     in (configs @ [new_ProblemConfig prior seed'], seed'))"

definition classification_2d_configs :: "PriorKnowledge \<Rightarrow> int \<Rightarrow> int \<Rightarrow> ProblemConfig list" where
  "classification_2d_configs pk0 num_seed initial_seed =
     fold (\<lambda>tau' configs.
        fst (fold (\<lambda>num_train'.
               fold (\<lambda>temperature'.
                 fold (\<lambda>unused_seed_inc. classification_2d_sweep_body pk0 tau' num_train' temperature')
                   (range_py num_seed))
                 [1 / 100, 1 / 10, 1 / 2])
               [1, 3, 10, 30, 100, 300, 1000]
             (configs, initial_seed)))
       [1, 10] []"

definition classification_2d_sweep :: "PriorKnowledge \<Rightarrow> int \<Rightarrow> int \<Rightarrow> ProblemConfig dict" where
  "classification_2d_sweep pk0 num_seed initial_seed =
     sweep_dict ''classification_2d'' (classification_2d_configs pk0 num_seed initial_seed)"

definition classification_2d_test_sweep :: "PriorKnowledge \<Rightarrow> ProblemConfig dict" where
  "classification_2d_test_sweep pk0 =
     (let full_configs = dict_values (classification_2d_sweep pk0 1 0);
          configs = filter_unique_configs full_configs
            (\<lambda>x. temperature (prior_knowledge x) = Some (1 / 100)
                 \<and> tau (prior_knowledge x) = 1)
      in sweep_dict ''classification_2d_test'' configs)"

subsection \<open>The sweeps of the ENN paper\<close>

text \<open>\<open>dataclasses.replace(problem_config, epistemic_only=True)\<close> is a record update.\<close>

definition enn_paper_sweep :: "PriorKnowledge \<Rightarrow> ProblemConfig dict" where
  "enn_paper_sweep pk0 =
     (let configs = dict_values (regression_sweep pk0 10 0)
      in dict_of_items
           (map (\<lambda>(i, problem_config).
                   (problem_id ''enn_paper'' i, problem_config\<lparr>epistemic_only := True\<rparr>))
              (List.enumerate 0 configs)))"

definition enn_paper_test_sweep :: "PriorKnowledge \<Rightarrow> ProblemConfig dict" where
  "enn_paper_test_sweep pk0 =
     (let full_configs = dict_values (regression_sweep pk0 1 0);
          configs = filter_unique_configs full_configs
            (\<lambda>x. noise_std (prior_knowledge x) = Some (1 / 10))
      in dict_of_items
           (map (\<lambda>(i, problem_config).
                   (problem_id ''enn_paper_test'' i, problem_config\<lparr>epistemic_only := True\<rparr>))
              (List.enumerate 0 configs)))"

subsection \<open>Merging the sweeps\<close>






section \<open>The sweeps of the SGMCMC agent\<close>

text \<open>
  \<open>sgmcmc.SGMCMCConfig\<close> is declared outside \<open>sweeps/testbed/sgmcmc.py\<close>; as for
  \<open>PriorKnowledge\<close>, the record has the fields the sweeps pass, the defaults are the
  parameter \<open>cfg0\<close>, and the two fields that \<open>sgld_sweep\<close> omits are optional.
  A tuple is a list.
\<close>

record SGMCMCConfig =
  learning_rate :: real
  prior_variance :: real
  adaptive_prior_variance :: bool
  alg_temperature :: "real option"
  momentum_decay :: "real option"

definition sgld_sweep :: "SGMCMCConfig \<Rightarrow> SGMCMCConfig list" where
  "sgld_sweep cfg0 =
     fold (\<lambda>learning_rate'.
        fold (\<lambda>prior_variance' sweep.
                sweep @ [cfg0\<lparr>learning_rate := learning_rate',
                               prior_variance := prior_variance',
                               adaptive_prior_variance := True\<rparr>])
          [5 / 100, 1 / 10, 1 / 2, 1, 2, 10])
       [5 / 10000, 1 / 1000, 5 / 1000] []"

definition momentum_sgld_sweep :: "SGMCMCConfig \<Rightarrow> SGMCMCConfig list" where
  "momentum_sgld_sweep cfg0 =
     fold (\<lambda>learning_rate'.
        fold (\<lambda>prior_variance' sweep.
                sweep @ [cfg0\<lparr>learning_rate := learning_rate',
                               prior_variance := prior_variance',
                               adaptive_prior_variance := True,
                               alg_temperature := Some 1,
                               momentum_decay := Some (9 / 10)\<rparr>])
          [5 / 100, 1 / 10, 1 / 2, 1, 2, 10])
       [5 / 10000, 1 / 1000, 5 / 1000] []"

definition combined_sweep :: "SGMCMCConfig \<Rightarrow> SGMCMCConfig list" where
  "combined_sweep cfg0 = sgld_sweep cfg0 @ momentum_sgld_sweep cfg0"

section \<open>The enumerations as the documentation describes them\<close>

text \<open>
  The grids of hyperparameters in loop order, and the configuration built for one grid
  point and one seed. The theorems below relate the loops above to these.
\<close>

definition regression_grid :: "(int \<times> int \<times> real) list" where
  "regression_grid =
     [(input_dim', data_ratio, noise_std').
        input_dim' \<leftarrow> [1, 10, 100], data_ratio \<leftarrow> [1, 10, 100],
        noise_std' \<leftarrow> [1 / 100, 1 / 10, 1]]"

definition regression_config :: "PriorKnowledge \<Rightarrow> int \<times> int \<times> real \<Rightarrow> int \<Rightarrow> ProblemConfig" where
  "regression_config pk0 = (\<lambda>(input_dim', data_ratio, noise_std') seed'.
     \<lparr>prior_knowledge =
        pk0\<lparr>input_dim := input_dim', num_train := data_ratio * input_dim', tau := 1,
            num_classes := 1, layers := 1, noise_std := Some noise_std'\<rparr>,
      seed = seed', logit_ctor = None, test_distribution = make_gaussian_sampler,
      num_test_seeds = 1000, num_enn_samples = 100, num_test_cache = 1000,
      epistemic_only = False\<rparr>)"

definition classification_grid :: "(int \<times> int \<times> real) list" where
  "classification_grid =
     [(input_dim', data_ratio, temperature').
        input_dim' \<leftarrow> [2, 10, 100], data_ratio \<leftarrow> [1, 10, 100, 1000],
        temperature' \<leftarrow> [1 / 100, 1 / 10, 1 / 2]]"

definition classification_config ::
  "PriorKnowledge \<Rightarrow> int \<Rightarrow> int \<times> int \<times> real \<Rightarrow> int \<Rightarrow> ProblemConfig" where
  "classification_config pk0 tau' = (\<lambda>(input_dim', data_ratio, temperature') seed'.
     \<lparr>prior_knowledge =
        pk0\<lparr>input_dim := input_dim', num_train := data_ratio * input_dim', tau := tau',
            num_classes := 2, layers := 2, temperature := Some temperature'\<rparr>,
      seed = seed', logit_ctor = None, test_distribution = make_polyadic_sampler,
      num_test_seeds = 1000, num_enn_samples = 1000, num_test_cache = 1000,
      epistemic_only = False\<rparr>)"

definition classification_2d_grid :: "(int \<times> real) list" where
  "classification_2d_grid =
     [(num_train', temperature').
        num_train' \<leftarrow> [1, 3, 10, 30, 100, 300, 1000], temperature' \<leftarrow> [1 / 100, 1 / 10, 1 / 2]]"

definition classification_2d_config ::
  "PriorKnowledge \<Rightarrow> int \<Rightarrow> int \<times> real \<Rightarrow> int \<Rightarrow> ProblemConfig" where
  "classification_2d_config pk0 tau' = (\<lambda>(num_train', temperature') seed'.
     \<lparr>prior_knowledge =
        pk0\<lparr>input_dim := 2, num_train := num_train', tau := tau',
            num_classes := 2, layers := 2, temperature := Some temperature'\<rparr>,
      seed = seed', logit_ctor = None, test_distribution = make_gaussian_sampler,
      num_test_seeds = 1000, num_enn_samples = 1000, num_test_cache = 1000,
      epistemic_only = False\<rparr>)"

definition sgmcmc_grid :: "(real \<times> real) list" where
  "sgmcmc_grid =
     [(learning_rate', prior_variance').
        learning_rate' \<leftarrow> [5 / 10000, 1 / 1000, 5 / 1000],
        prior_variance' \<leftarrow> [5 / 100, 1 / 10, 1 / 2, 1, 2, 10]]"


text \<open>Some defaults for \<open>PriorKnowledge\<close>, to run the sweeps on in the examples.\<close>

definition sample_defaults :: PriorKnowledge where
  "sample_defaults =
     \<lparr>input_dim = 0, num_train = 0, tau = 0, num_classes = 1, layers = 0,
      noise_std = None, temperature = None\<rparr>"

definition classification_block :: "PriorKnowledge \<Rightarrow> int \<Rightarrow> int \<Rightarrow> int \<Rightarrow> ProblemConfig list" where
  "classification_block pk0 num_seed initial_seed tau' =
     map (\<lambda>i. classification_config pk0 tau' (classification_grid ! (i div nat num_seed))
                (initial_seed + 1 + int i)) [0..<36 * nat num_seed]"

definition classification_2d_block ::
  "PriorKnowledge \<Rightarrow> int \<Rightarrow> int \<Rightarrow> int \<Rightarrow> ProblemConfig list" where
  "classification_2d_block pk0 num_seed initial_seed tau' =
     map (\<lambda>i. classification_2d_config pk0 tau' (classification_2d_grid ! (i div nat num_seed))
                (initial_seed + 1 + int i)) [0..<21 * nat num_seed]"

text \<open>Some defaults for \<open>SGMCMCConfig\<close>, to run the sweeps on in the examples.\<close>

definition sample_sgmcmc :: SGMCMCConfig where
  "sample_sgmcmc =
     \<lparr>learning_rate = 0, prior_variance = 0, adaptive_prior_variance = False,
      alg_temperature = None, momentum_decay = None\<rparr>"

section \<open>Facts about ids and dictionaries\<close>

lemma of_char_digit_char:
  assumes "d < 10"
  shows "of_char (digit_char d) - 48 = (d::nat)"
proof -
  from assms have "d \<in> {0, 1, 2, 3, 4, 5, 6, 7, 8, 9}" by auto
  then show ?thesis by (auto simp: digit_char_def)
qed

lemma nat_of_digits_snoc:
  "nat_of_digits (s @ [c]) = 10 * nat_of_digits s + (of_char c - 48)"
  by (simp add: nat_of_digits_def)

lemma nat_of_digits_str_nat: "nat_of_digits (str_nat n) = n"
proof (induction n rule: str_nat.induct)
  case (1 n)
  show ?case
  proof (cases "n < 10")
    case True
    then show ?thesis
      by (subst str_nat.simps) (simp add: nat_of_digits_def of_char_digit_char)
  next
    case False
    then have "nat_of_digits (str_nat n) = 10 * (n div 10) + n mod 10"
      using "1.IH" by (subst str_nat.simps) (simp add: nat_of_digits_snoc of_char_digit_char)
    then show ?thesis by simp
  qed
qed

lemma str_nat_inject: "str_nat m = str_nat n \<longleftrightarrow> m = n"
  using nat_of_digits_str_nat by metis
lemma dict_set_fresh: "k \<notin> fst ` set d \<Longrightarrow> dict_set k v d = d @ [(k, v)]"
  by (induction d) auto

lemma fold_dict_set_distinct:
  "distinct (map fst (d @ kvs)) \<Longrightarrow> fold (\<lambda>(k, v) d. dict_set k v d) kvs d = d @ kvs"
proof (induction kvs arbitrary: d)
  case Nil
  then show ?case by simp
next
  case (Cons kv kvs)
  obtain k v where kv: "kv = (k, v)" by (cases kv)
  from Cons.prems have fresh: "k \<notin> fst ` set d" by (auto simp: kv)
  from Cons.prems have "distinct (map fst ((d @ [(k, v)]) @ kvs))" by (auto simp: kv)
  from Cons.IH [OF this] show ?case by (simp add: kv dict_set_fresh [OF fresh])
qed

lemma dict_of_items_distinct: "distinct (map fst kvs) \<Longrightarrow> dict_of_items kvs = kvs"
  using fold_dict_set_distinct [of "[]" kvs] by (simp add: dict_of_items_def)


lemma problem_id_inject: "problem_id name i = problem_id name j \<longleftrightarrow> i = j"
  by (simp add: problem_id_def str_nat_inject)

lemma distinct_problem_ids: "distinct (map (problem_id name) [0..<n])"
  by (simp add: distinct_map inj_on_def problem_id_inject)

lemma sweep_items:
  "map (\<lambda>(i, v). (problem_id name i, g v)) (List.enumerate 0 cs)
   = zip (map (problem_id name) [0..<length cs]) (map g cs)"
  by (simp add: enumerate_eq_zip zip_map1 zip_map2 case_prod_unfold)

lemma sweep_dict_zip: "sweep_dict name cs = zip (map (problem_id name) [0..<length cs]) cs"
  unfolding sweep_dict_def using sweep_items [of name id cs]
  by (simp add: dict_of_items_distinct distinct_problem_ids)

lemma enumerated_dict_zip:
  "dict_of_items (map (\<lambda>(i, v). (problem_id name i, g v)) (List.enumerate 0 cs))
   = zip (map (problem_id name) [0..<length cs]) (map g cs)"
  unfolding sweep_items
  by (rule dict_of_items_distinct) (simp add: distinct_problem_ids)

lemma sweep_dict_keys:
  "dict_keys (sweep_dict name cs) = map (problem_id name) [0..<length (sweep_dict name cs)]"
  by (simp add: sweep_dict_zip dict_keys_def)

lemma enumerated_dict_keys:
  "dict_keys (dict_of_items (map (\<lambda>(i, v). (problem_id name i, g v)) (List.enumerate 0 cs)))
   = map (problem_id name)
       [0..<length (dict_of_items (map (\<lambda>(i, v). (problem_id name i, g v)) (List.enumerate 0 cs)))]"
  by (simp add: enumerated_dict_zip dict_keys_def)

section \<open>The loops\<close>

lemma seed_loop:
  assumes B: "\<And>cs s. B (cs, s) = (cs @ [mk (s + 1)], s + 1)"
  shows "fold (\<lambda>unused. B) [0..<k] (cs, s)
         = (cs @ map (\<lambda>j. mk (s + 1 + int j)) [0..<k], s + int k)"
  by (induction k) (simp_all add: B add.commute add.left_commute)

lemma grid_loop:
  assumes B: "\<And>p cs s. B p (cs, s) = (cs @ [mk p (s + 1)], s + 1)"
  shows "fold (\<lambda>p. fold (\<lambda>unused. B p) [0..<k]) ps (cs, s)
         = (cs @ map (\<lambda>i. mk (ps ! (i div k)) (s + 1 + int i)) [0..<length ps * k],
            s + int (length ps * k))"
proof (induction ps rule: rev_induct)
  case Nil
  then show ?case by simp
next
  case (snoc p ps)
  let ?n = "length ps"
  have split: "[0..<length (ps @ [p]) * k] = [0..<?n * k] @ map (\<lambda>j. ?n * k + j) [0..<k]"
  proof -
    have "[0..<length (ps @ [p]) * k] = [0..<?n * k + k]" by (simp add: add.commute)
    also have "\<dots> = [0..<?n * k] @ [?n * k..<?n * k + k]"
      by (rule upt_add_eq_append) simp
    also have "[?n * k..<?n * k + k] = map (\<lambda>j. j + ?n * k) [0..<k]"
      by (simp only: map_add_upt add.commute)
    also have "\<dots> = map (\<lambda>j. ?n * k + j) [0..<k]"
      by (simp add: add.commute)
    finally show ?thesis .
  qed
  have old: "map (\<lambda>i. mk ((ps @ [p]) ! (i div k)) (s + 1 + int i)) [0..<?n * k]
             = map (\<lambda>i. mk (ps ! (i div k)) (s + 1 + int i)) [0..<?n * k]"
  proof (rule map_cong [OF refl])
    fix i assume "i \<in> set [0..<?n * k]"
    then have "i div k < ?n"
      by (simp add: less_mult_imp_div_less)
    then show "mk ((ps @ [p]) ! (i div k)) (s + 1 + int i) = mk (ps ! (i div k)) (s + 1 + int i)"
      by (simp add: nth_append)
  qed
  have new: "map (\<lambda>i. mk ((ps @ [p]) ! (i div k)) (s + 1 + int i)) (map (\<lambda>j. ?n * k + j) [0..<k])
             = map (\<lambda>j. mk p (s + int (?n * k) + 1 + int j)) [0..<k]"
  proof (simp only: map_map, rule map_cong [OF refl])
    fix j assume "j \<in> set [0..<k]"
    then have "(?n * k + j) div k = ?n" by simp
    then show "((\<lambda>i. mk ((ps @ [p]) ! (i div k)) (s + 1 + int i)) \<circ> (\<lambda>j. ?n * k + j)) j
               = mk p (s + int (?n * k) + 1 + int j)"
      by (simp add: add.commute add.left_commute)
  qed
  let ?F = "\<lambda>qs i. mk (qs ! (i div k)) (s + 1 + int i)"
  have "fold (\<lambda>p. fold (\<lambda>unused. B p) [0..<k]) (ps @ [p]) (cs, s)
        = fold (\<lambda>unused. B p) [0..<k] (fold (\<lambda>p. fold (\<lambda>unused. B p) [0..<k]) ps (cs, s))"
    by simp
  also have "\<dots> = fold (\<lambda>unused. B p) [0..<k] (cs @ map (?F ps) [0..<?n * k], s + int (?n * k))"
    by (simp only: snoc.IH)
  also have "\<dots> = ((cs @ map (?F ps) [0..<?n * k])
                        @ map (\<lambda>j. mk p (s + int (?n * k) + 1 + int j)) [0..<k],
                      s + int (?n * k) + int k)"
    by (rule seed_loop [OF B])
  also have "\<dots> = (cs @ map (?F (ps @ [p])) [0..<length (ps @ [p]) * k],
                      s + int (length (ps @ [p]) * k))"
    unfolding split map_append old new by (simp add: algebra_simps)
  finally show ?case .
qed

lemma regression_sweep_body_eq:
  "regression_sweep_body pk0 d r ns (cs, s) = (cs @ [regression_config pk0 (d, r, ns) (s + 1)], s + 1)"
  by (simp add: regression_sweep_body_def regression_config_def new_ProblemConfig_def Let_def)

lemma regression_configs_grid:
  "regression_configs pk0 num_seed initial_seed
   = fst (fold (\<lambda>p. fold (\<lambda>unused. case p of (d, r, ns) \<Rightarrow> regression_sweep_body pk0 d r ns)
                  [0..<nat num_seed]) regression_grid ([], initial_seed))"
  by (simp add: regression_configs_def regression_grid_def range_py_def)

lemma length_regression_grid: "length regression_grid = 27"
  by (simp add: regression_grid_def)

lemma regression_configs_eq:
  "regression_configs pk0 num_seed initial_seed
   = map (\<lambda>i. regression_config pk0 (regression_grid ! (i div nat num_seed)) (initial_seed + 1 + int i))
       [0..<27 * nat num_seed]"
  unfolding regression_configs_grid
  by (subst grid_loop [where mk = "regression_config pk0"])
     (auto simp: regression_sweep_body_eq length_regression_grid)

section \<open>Regression sweep\<close>

lemma regression_sweep_zip:
  "regression_sweep pk0 num_seed initial_seed
   = zip (map (problem_id ''regression'') [0..<27 * nat num_seed])
         (map (\<lambda>i. regression_config pk0 (regression_grid ! (i div nat num_seed))
                      (initial_seed + 1 + int i)) [0..<27 * nat num_seed])"
  by (simp add: regression_sweep_def sweep_dict_zip regression_configs_eq)

lemma regression_grid_nth:
  assumes "j < 27"
  shows "case regression_grid ! j of (d, r, ns) \<Rightarrow>
           d \<in> {1, 10, 100} \<and> r \<in> {1, 10, 100} \<and> ns \<in> {1 / 100, 1 / 10, 1}"
proof -
  have "regression_grid ! j \<in> set regression_grid"
    using assms by (simp add: length_regression_grid)
  then show ?thesis by (auto simp: regression_grid_def)
qed

text \<open>
  C3. For every \<open>num_seed \<ge> 0\<close> and every \<open>initial_seed\<close>, \<open>regression_sweep\<close> returns a
  dictionary with exactly \<open>27 * num_seed\<close> entries whose keys are \<open>regression/0\<close> to
  \<open>regression/{27 * num_seed - 1}\<close> in this order, all different. The entries follow the
  nested loops over \<open>input_dim\<close>, \<open>data_ratio\<close>, \<open>noise_std\<close> and the seed increments: the
  \<open>i\<close>-th config belongs to grid point \<open>i div num_seed\<close>, has seed
  \<open>initial_seed + 1 + i\<close>, \<open>num_train = data_ratio * input_dim\<close>, \<open>num_classes = 1\<close>,
  \<open>tau = 1\<close>, \<open>layers = 1\<close> and \<open>num_enn_samples = 100\<close>.
\<close>

theorem regression_sweep_enumeration:
  assumes "0 \<le> num_seed"
  shows "int (length (regression_sweep pk0 num_seed initial_seed)) = 27 * num_seed
       \<and> dict_keys (regression_sweep pk0 num_seed initial_seed)
           = map (problem_id ''regression'') [0..<nat (27 * num_seed)]
       \<and> distinct (dict_keys (regression_sweep pk0 num_seed initial_seed))
       \<and> (\<forall>i < nat (27 * num_seed).
            case regression_grid ! (i div nat num_seed) of (input_dim', data_ratio, noise_std') \<Rightarrow>
              dict_values (regression_sweep pk0 num_seed initial_seed) ! i
                = regression_config pk0 (input_dim', data_ratio, noise_std') (initial_seed + 1 + int i)
              \<and> seed (dict_values (regression_sweep pk0 num_seed initial_seed) ! i)
                  = initial_seed + 1 + int i
              \<and> (let pk = prior_knowledge (dict_values (regression_sweep pk0 num_seed initial_seed) ! i)
                 in input_dim pk = input_dim' \<and> noise_std pk = Some noise_std'
                  \<and> num_train pk = data_ratio * input_dim'
                  \<and> num_classes pk = 1 \<and> tau pk = 1 \<and> layers pk = 1)
              \<and> num_enn_samples (dict_values (regression_sweep pk0 num_seed initial_seed) ! i) = 100)"
proof -
  let ?n = "27 * nat num_seed"
  have n: "nat (27 * num_seed) = ?n" using assms by (simp add: nat_mult_distrib)
  have len: "int (length (regression_sweep pk0 num_seed initial_seed)) = 27 * num_seed"
    using assms by (simp add: regression_sweep_zip)
  have keys: "dict_keys (regression_sweep pk0 num_seed initial_seed)
              = map (problem_id ''regression'') [0..<nat (27 * num_seed)]"
    unfolding n by (simp add: regression_sweep_zip dict_keys_def)
  have dist: "distinct (dict_keys (regression_sweep pk0 num_seed initial_seed))"
    unfolding keys by (rule distinct_problem_ids)
  have vals: "dict_values (regression_sweep pk0 num_seed initial_seed) ! i
              = regression_config pk0 (regression_grid ! (i div nat num_seed)) (initial_seed + 1 + int i)"
    if "i < ?n" for i
    using that by (simp add: regression_sweep_zip dict_values_def)
  show ?thesis
    unfolding n using len keys dist
    by (auto simp: n vals regression_config_def Let_def split: prod.splits)
qed

theorem regression_sweep_enumeration_witness:
  "(0::int) \<le> 2
   \<and> length (regression_sweep sample_defaults 2 5) = 54
   \<and> dict_keys (regression_sweep sample_defaults 2 5) ! 53 = ''regression/53''
   \<and> regression_grid ! (53 div nat 2) = (100, 100, 1)
   \<and> seed (dict_values (regression_sweep sample_defaults 2 5) ! 53) = 59
   \<and> num_train (prior_knowledge (dict_values (regression_sweep sample_defaults 2 5) ! 53)) = 10000"
proof -
  have g: "regression_grid ! (53 div nat 2) = (100, 100, 1)"
    by (simp add: regression_grid_def)
  have k: "problem_id ''regression'' 53 = ''regression/53''"
    by (simp add: problem_id_def SEPARATOR_def str_nat.simps digit_char_def)
  have h: "(0::int) \<le> 2" by simp
  from regression_sweep_enumeration [OF h, of sample_defaults 5]
  have len: "int (length (regression_sweep sample_defaults 2 5)) = 54"
    and keys: "dict_keys (regression_sweep sample_defaults 2 5) = map (problem_id ''regression'') [0..<54]"
    and vals: "\<forall>i<54. case regression_grid ! (i div nat 2) of (input_dim', data_ratio, noise_std') \<Rightarrow>
              dict_values (regression_sweep sample_defaults 2 5) ! i
                = regression_config sample_defaults (input_dim', data_ratio, noise_std') (5 + 1 + int i)
              \<and> seed (dict_values (regression_sweep sample_defaults 2 5) ! i)
                  = 5 + 1 + int i
              \<and> (let pk = prior_knowledge (dict_values (regression_sweep sample_defaults 2 5) ! i)
                 in input_dim pk = input_dim' \<and> noise_std pk = Some noise_std'
                  \<and> num_train pk = data_ratio * input_dim'
                  \<and> num_classes pk = 1 \<and> tau pk = 1 \<and> layers pk = 1)
              \<and> num_enn_samples (dict_values (regression_sweep sample_defaults 2 5) ! i) = 100"
    by simp_all
  from vals have "case regression_grid ! (53 div nat 2) of (input_dim', data_ratio, noise_std') \<Rightarrow>
              dict_values (regression_sweep sample_defaults 2 5) ! 53
                = regression_config sample_defaults (input_dim', data_ratio, noise_std') (5 + 1 + int 53)
              \<and> seed (dict_values (regression_sweep sample_defaults 2 5) ! 53)
                  = 5 + 1 + int 53
              \<and> (let pk = prior_knowledge (dict_values (regression_sweep sample_defaults 2 5) ! 53)
                 in input_dim pk = input_dim' \<and> noise_std pk = Some noise_std'
                  \<and> num_train pk = data_ratio * input_dim'
                  \<and> num_classes pk = 1 \<and> tau pk = 1 \<and> layers pk = 1)
              \<and> num_enn_samples (dict_values (regression_sweep sample_defaults 2 5) ! 53) = 100"
    by (rule allE [where x = 53]) simp
  then have v53: "seed (dict_values (regression_sweep sample_defaults 2 5) ! 53) = 59
     \<and> num_train (prior_knowledge (dict_values (regression_sweep sample_defaults 2 5) ! 53)) = 10000"
    unfolding g by (simp add: Let_def regression_config_def)
  from len have len': "length (regression_sweep sample_defaults 2 5) = 54" by simp
  have "dict_keys (regression_sweep sample_defaults 2 5) ! 53 = ''regression/53''"
    unfolding keys using k by simp
  with h len' g v53 show ?thesis by simp
qed

section \<open>Classification sweeps\<close>

lemma classification_sweep_body_eq:
  "classification_sweep_body pk0 t d r T (cs, s)
   = (cs @ [classification_config pk0 t (d, r, T) (s + 1)], s + 1)"
  by (simp add: classification_sweep_body_def classification_config_def new_ProblemConfig_def Let_def)

lemma length_classification_grid: "length classification_grid = 36"
  by (simp add: classification_grid_def)

lemma classification_tau_iteration:
  "fst (fold (\<lambda>input_dim'.
          fold (\<lambda>data_ratio.
            fold (\<lambda>temperature'.
              fold (\<lambda>unused_seed_inc.
                      classification_sweep_body pk0 t input_dim' data_ratio temperature')
                (range_py num_seed))
              [1 / 100, 1 / 10, 1 / 2])
            [1, 10, 100, 1000])
          [2, 10, 100]
        (configs, initial_seed))
   = configs @ classification_block pk0 num_seed initial_seed t"
proof -
  have "fold (\<lambda>input_dim'.
          fold (\<lambda>data_ratio.
            fold (\<lambda>temperature'.
              fold (\<lambda>unused_seed_inc.
                      classification_sweep_body pk0 t input_dim' data_ratio temperature')
                (range_py num_seed))
              [1 / 100, 1 / 10, 1 / 2])
            [1, 10, 100, 1000])
          [2, 10, 100]
        (configs, initial_seed)
      = fold (\<lambda>p. fold (\<lambda>unused. case p of (d, r, T) \<Rightarrow> classification_sweep_body pk0 t d r T)
                [0..<nat num_seed]) classification_grid (configs, initial_seed)"
    by (simp add: classification_grid_def range_py_def)
  also have "\<dots> = (configs @ classification_block pk0 num_seed initial_seed t,
                     initial_seed + int (length classification_grid * nat num_seed))"
    unfolding classification_block_def
    by (subst grid_loop [where mk = "classification_config pk0 t"])
       (auto simp: classification_sweep_body_eq length_classification_grid)
  finally show ?thesis by simp
qed

lemma classification_configs_eq:
  "classification_configs pk0 num_seed initial_seed
   = classification_block pk0 num_seed initial_seed 1
     @ classification_block pk0 num_seed initial_seed 10"
  unfolding classification_configs_def classification_tau_iteration by simp

lemma length_classification_block [simp]:
  "length (classification_block pk0 num_seed initial_seed t) = 36 * nat num_seed"
  by (simp add: classification_block_def)

lemma classification_block_nth:
  "j < 36 * nat num_seed \<Longrightarrow>
   classification_block pk0 num_seed initial_seed t ! j
   = classification_config pk0 t (classification_grid ! (j div nat num_seed)) (initial_seed + 1 + int j)"
  by (simp add: classification_block_def)

lemma classification_sweep_zip:
  "classification_sweep pk0 num_seed initial_seed
   = zip (map (problem_id ''classification'') [0..<72 * nat num_seed])
         (classification_block pk0 num_seed initial_seed 1
          @ classification_block pk0 num_seed initial_seed 10)"
  by (simp add: classification_sweep_def sweep_dict_zip classification_configs_eq)

lemma classification_values:
  "dict_values (classification_sweep pk0 num_seed initial_seed)
   = classification_block pk0 num_seed initial_seed 1
     @ classification_block pk0 num_seed initial_seed 10"
  by (simp add: classification_sweep_zip dict_values_def)

lemma classification_keys:
  "dict_keys (classification_sweep pk0 num_seed initial_seed)
   = map (problem_id ''classification'') [0..<72 * nat num_seed]"
  by (simp add: classification_sweep_zip dict_keys_def)

lemma classification_values_nth:
  assumes "i < 72 * nat num_seed"
  shows "dict_values (classification_sweep pk0 num_seed initial_seed) ! i
         = classification_config pk0 ([1, 10] ! (i div (36 * nat num_seed)))
             (classification_grid ! (i mod (36 * nat num_seed) div nat num_seed))
             (initial_seed + 1 + int (i mod (36 * nat num_seed)))"
proof (cases "i < 36 * nat num_seed")
  case True
  then show ?thesis
    by (simp add: classification_values nth_append classification_block_nth)
next
  case False
  let ?m = "36 * nat num_seed"
  from False assms have j: "i - ?m < ?m" by simp
  from False assms have d: "i div ?m = 1"
    by (intro div_nat_eqI) simp_all
  from False j have m: "i mod ?m = i - ?m"
    by (metis le_mod_geq mod_less not_less)
  from False show ?thesis
    unfolding d m by (simp add: classification_values nth_append classification_block_nth [OF j])
qed

lemma classification_2d_sweep_body_eq:
  "classification_2d_sweep_body pk0 t n T (cs, s)
   = (cs @ [classification_2d_config pk0 t (n, T) (s + 1)], s + 1)"
  by (simp add: classification_2d_sweep_body_def classification_2d_config_def
        new_ProblemConfig_def Let_def)

lemma length_classification_2d_grid: "length classification_2d_grid = 21"
  by (simp add: classification_2d_grid_def)

lemma classification_2d_tau_iteration:
  "fst (fold (\<lambda>num_train'.
          fold (\<lambda>temperature'.
            fold (\<lambda>unused_seed_inc. classification_2d_sweep_body pk0 t num_train' temperature')
              (range_py num_seed))
            [1 / 100, 1 / 10, 1 / 2])
          [1, 3, 10, 30, 100, 300, 1000]
        (configs, initial_seed))
   = configs @ classification_2d_block pk0 num_seed initial_seed t"
proof -
  have "fold (\<lambda>num_train'.
          fold (\<lambda>temperature'.
            fold (\<lambda>unused_seed_inc. classification_2d_sweep_body pk0 t num_train' temperature')
              (range_py num_seed))
            [1 / 100, 1 / 10, 1 / 2])
          [1, 3, 10, 30, 100, 300, 1000]
        (configs, initial_seed)
      = fold (\<lambda>p. fold (\<lambda>unused. case p of (n, T) \<Rightarrow> classification_2d_sweep_body pk0 t n T)
                [0..<nat num_seed]) classification_2d_grid (configs, initial_seed)"
    by (simp add: classification_2d_grid_def range_py_def)
  also have "\<dots> = (configs @ classification_2d_block pk0 num_seed initial_seed t,
                     initial_seed + int (length classification_2d_grid * nat num_seed))"
    unfolding classification_2d_block_def
    by (subst grid_loop [where mk = "classification_2d_config pk0 t"])
       (auto simp: classification_2d_sweep_body_eq length_classification_2d_grid)
  finally show ?thesis by simp
qed

lemma classification_2d_configs_eq:
  "classification_2d_configs pk0 num_seed initial_seed
   = classification_2d_block pk0 num_seed initial_seed 1
     @ classification_2d_block pk0 num_seed initial_seed 10"
  unfolding classification_2d_configs_def classification_2d_tau_iteration by simp

lemma length_classification_2d_block [simp]:
  "length (classification_2d_block pk0 num_seed initial_seed t) = 21 * nat num_seed"
  by (simp add: classification_2d_block_def)

lemma classification_2d_block_nth:
  "j < 21 * nat num_seed \<Longrightarrow>
   classification_2d_block pk0 num_seed initial_seed t ! j
   = classification_2d_config pk0 t (classification_2d_grid ! (j div nat num_seed))
       (initial_seed + 1 + int j)"
  by (simp add: classification_2d_block_def)

lemma classification_2d_sweep_zip:
  "classification_2d_sweep pk0 num_seed initial_seed
   = zip (map (problem_id ''classification_2d'') [0..<42 * nat num_seed])
         (classification_2d_block pk0 num_seed initial_seed 1
          @ classification_2d_block pk0 num_seed initial_seed 10)"
  by (simp add: classification_2d_sweep_def sweep_dict_zip classification_2d_configs_eq)

lemma classification_2d_values:
  "dict_values (classification_2d_sweep pk0 num_seed initial_seed)
   = classification_2d_block pk0 num_seed initial_seed 1
     @ classification_2d_block pk0 num_seed initial_seed 10"
  by (simp add: classification_2d_sweep_zip dict_values_def)

lemma classification_2d_keys:
  "dict_keys (classification_2d_sweep pk0 num_seed initial_seed)
   = map (problem_id ''classification_2d'') [0..<42 * nat num_seed]"
  by (simp add: classification_2d_sweep_zip dict_keys_def)

lemma seed_classification_config [simp]:
  "seed (classification_config pk0 t p s) = s"
  "tau (prior_knowledge (classification_config pk0 t p s)) = t"
  by (simp_all add: classification_config_def split: prod.splits)

lemma seed_classification_2d_config [simp]:
  "seed (classification_2d_config pk0 t p s) = s"
  "tau (prior_knowledge (classification_2d_config pk0 t p s)) = t"
  by (simp_all add: classification_2d_config_def split: prod.splits)

lemma regression_values:
  "dict_values (regression_sweep pk0 num_seed initial_seed)
   = map (\<lambda>i. regression_config pk0 (regression_grid ! (i div nat num_seed))
                (initial_seed + 1 + int i)) [0..<27 * nat num_seed]"
  by (simp add: regression_sweep_zip dict_values_def)

lemma seed_regression_config [simp]: "seed (regression_config pk0 p s) = s"
  by (simp add: regression_config_def split: prod.splits)

lemma regression_seeds_distinct:
  "distinct (map seed (dict_values (regression_sweep pk0 num_seed initial_seed)))"
  by (simp add: regression_values distinct_map inj_on_def comp_def)

lemma repeated_seed_not_distinct:
  assumes "0 < m" "length xs = 2 * m" "f (xs ! 0) = f (xs ! m)"
  shows "\<not> distinct (map f xs)"
proof
  assume "distinct (map f xs)"
  moreover have "0 < length (map f xs)" "m < length (map f xs)" "(0::nat) \<noteq> m"
    using assms by simp_all
  moreover have "map f xs ! 0 = map f xs ! m" using assms by simp
  ultimately show False by (metis nth_eq_iff_index_eq)
qed

text \<open>
  C4. For every \<open>num_seed \<ge> 0\<close> and every \<open>initial_seed\<close>, \<open>classification_sweep\<close>
  returns a dictionary with exactly \<open>72 * num_seed\<close> entries whose keys are
  \<open>classification/0\<close> to \<open>classification/{72 * num_seed - 1}\<close> in this order, all different.
  The entries follow the nested loops over \<open>tau\<close> in \<open>[1, 10]\<close>, \<open>input_dim\<close>, \<open>data_ratio\<close>,
  \<open>temperature\<close> and the seed increments, and every config has \<open>num_classes = 2\<close>,
  \<open>layers = 2\<close>, \<open>num_train = data_ratio * input_dim\<close> and
  \<open>test_distribution = make_polyadic_sampler\<close>.
\<close>

theorem classification_sweep_enumeration:
  assumes "0 \<le> num_seed"
  shows "int (length (classification_sweep pk0 num_seed initial_seed)) = 72 * num_seed
       \<and> dict_keys (classification_sweep pk0 num_seed initial_seed)
           = map (problem_id ''classification'') [0..<nat (72 * num_seed)]
       \<and> distinct (dict_keys (classification_sweep pk0 num_seed initial_seed))
       \<and> (\<forall>i < nat (72 * num_seed).
            case classification_grid ! (i mod (36 * nat num_seed) div nat num_seed)
            of (input_dim', data_ratio, temperature') \<Rightarrow>
              (let c = dict_values (classification_sweep pk0 num_seed initial_seed) ! i;
                   pk = prior_knowledge c
               in c = classification_config pk0 ([1, 10] ! (i div (36 * nat num_seed)))
                        (input_dim', data_ratio, temperature')
                        (initial_seed + 1 + int (i mod (36 * nat num_seed)))
                \<and> tau pk = [1, 10] ! (i div (36 * nat num_seed))
                \<and> input_dim pk = input_dim' \<and> temperature pk = Some temperature'
                \<and> num_train pk = data_ratio * input_dim'
                \<and> num_classes pk = 2 \<and> layers pk = 2
                \<and> test_distribution c = make_polyadic_sampler))"
proof -
  let ?n = "72 * nat num_seed"
  have n: "nat (72 * num_seed) = ?n" using assms by (simp add: nat_mult_distrib)
  have len: "int (length (classification_sweep pk0 num_seed initial_seed)) = 72 * num_seed"
    using assms by (simp add: classification_sweep_zip)
  have keys: "dict_keys (classification_sweep pk0 num_seed initial_seed)
              = map (problem_id ''classification'') [0..<nat (72 * num_seed)]"
    unfolding n by (rule classification_keys)
  have dist: "distinct (dict_keys (classification_sweep pk0 num_seed initial_seed))"
    unfolding keys by (rule distinct_problem_ids)
  show ?thesis
    unfolding n using len keys dist
    by (auto simp: n classification_values_nth classification_config_def Let_def split: prod.splits)
qed

theorem classification_sweep_enumeration_witness:
  "(0::int) \<le> 1
   \<and> length (classification_sweep sample_defaults 1 0) = 72
   \<and> dict_keys (classification_sweep sample_defaults 1 0) ! 71 = ''classification/71''
   \<and> classification_grid ! (71 mod (36 * nat 1) div nat 1) = (100, 1000, 1 / 2)
   \<and> tau (prior_knowledge (dict_values (classification_sweep sample_defaults 1 0) ! 71)) = 10
   \<and> num_train (prior_knowledge (dict_values (classification_sweep sample_defaults 1 0) ! 71)) = 100000
   \<and> test_distribution (dict_values (classification_sweep sample_defaults 1 0) ! 71)
       = make_polyadic_sampler"
proof -
  have h: "(0::int) \<le> 1" by simp
  note enum = classification_sweep_enumeration [OF h, of sample_defaults 0]
  have g: "classification_grid ! (71 mod (36 * nat 1) div nat 1) = (100, 1000, 1 / 2)"
    by (simp add: classification_grid_def)
  have k: "problem_id ''classification'' 71 = ''classification/71''"
    by (simp add: problem_id_def SEPARATOR_def str_nat.simps digit_char_def)
  from enum have len: "length (classification_sweep sample_defaults 1 0) = 72" by simp
  from enum have keys: "dict_keys (classification_sweep sample_defaults 1 0)
                        = map (problem_id ''classification'') [0..<72]" by simp
  have key: "dict_keys (classification_sweep sample_defaults 1 0) ! 71 = ''classification/71''"
    unfolding keys using k by simp
  have "(71::nat) < nat (72 * 1)" by simp
  from enum [THEN conjunct2, THEN conjunct2, THEN conjunct2, rule_format, OF this]
  have "tau (prior_knowledge (dict_values (classification_sweep sample_defaults 1 0) ! 71)) = 10
      \<and> num_train (prior_knowledge (dict_values (classification_sweep sample_defaults 1 0) ! 71)) = 100000
      \<and> test_distribution (dict_values (classification_sweep sample_defaults 1 0) ! 71)
          = make_polyadic_sampler"
    unfolding g by (simp add: Let_def classification_config_def)
  with h len key g show ?thesis by simp
qed

text \<open>
  C9. In \<open>classification_sweep\<close> and \<open>classification_2d_sweep\<close> the seed counter starts again
  from \<open>initial_seed\<close> in each \<open>tau\<close> iteration: the config at position \<open>j\<close> of the part for
  \<open>tau = 1\<close> and the config at position \<open>j\<close> of the part for \<open>tau = 10\<close> have the same seed.
  So the seeds of these sweeps are not all different as soon as the sweep is not empty,
  whereas the seeds of \<open>regression_sweep\<close> are.
\<close>

theorem classification_seeds_repeat:
  "(\<forall>j < 36 * nat num_seed.
      let a = dict_values (classification_sweep pk0 num_seed initial_seed) ! j;
          b = dict_values (classification_sweep pk0 num_seed initial_seed) ! (36 * nat num_seed + j)
      in tau (prior_knowledge a) = 1 \<and> tau (prior_knowledge b) = 10
       \<and> seed a = initial_seed + 1 + int j \<and> seed b = seed a)
   \<and> (\<forall>j < 21 * nat num_seed.
      let a = dict_values (classification_2d_sweep pk0 num_seed initial_seed) ! j;
          b = dict_values (classification_2d_sweep pk0 num_seed initial_seed) ! (21 * nat num_seed + j)
      in tau (prior_knowledge a) = 1 \<and> tau (prior_knowledge b) = 10
       \<and> seed a = initial_seed + 1 + int j \<and> seed b = seed a)
   \<and> (0 < num_seed \<longrightarrow>
        \<not> distinct (map seed (dict_values (classification_sweep pk0 num_seed initial_seed)))
      \<and> \<not> distinct (map seed (dict_values (classification_2d_sweep pk0 num_seed initial_seed))))
   \<and> distinct (map seed (dict_values (regression_sweep pk0 num_seed initial_seed)))"
proof -
  let ?k = "nat num_seed"
  let ?c = "dict_values (classification_sweep pk0 num_seed initial_seed)"
  let ?d = "dict_values (classification_2d_sweep pk0 num_seed initial_seed)"
  have c: "tau (prior_knowledge (?c ! j)) = 1 \<and> tau (prior_knowledge (?c ! (36 * ?k + j))) = 10
         \<and> seed (?c ! j) = initial_seed + 1 + int j \<and> seed (?c ! (36 * ?k + j)) = seed (?c ! j)"
    if "j < 36 * ?k" for j
    using that by (simp add: classification_values nth_append classification_block_nth)
  have d: "tau (prior_knowledge (?d ! j)) = 1 \<and> tau (prior_knowledge (?d ! (21 * ?k + j))) = 10
         \<and> seed (?d ! j) = initial_seed + 1 + int j \<and> seed (?d ! (21 * ?k + j)) = seed (?d ! j)"
    if "j < 21 * ?k" for j
    using that by (simp add: classification_2d_values nth_append classification_2d_block_nth)
  have nc: "\<not> distinct (map seed ?c)" if "0 < num_seed"
  proof (rule repeated_seed_not_distinct [where m = "36 * ?k"])
    from that show "0 < 36 * ?k" by simp
    show "length ?c = 2 * (36 * ?k)" by (simp add: classification_values)
    from that have "0 < 36 * ?k" by simp
    from c [OF this] show "seed (?c ! 0) = seed (?c ! (36 * ?k))" by simp
  qed
  have nd: "\<not> distinct (map seed ?d)" if "0 < num_seed"
  proof (rule repeated_seed_not_distinct [where m = "21 * ?k"])
    from that show "0 < 21 * ?k" by simp
    show "length ?d = 2 * (21 * ?k)" by (simp add: classification_2d_values)
    from that have "0 < 21 * ?k" by simp
    from d [OF this] show "seed (?d ! 0) = seed (?d ! (21 * ?k))" by simp
  qed
  from c d nc nd regression_seeds_distinct show ?thesis
    by (simp add: Let_def)
qed

theorem classification_seeds_repeat_witness:
  "(35::nat) < 36 * nat 1
   \<and> (20::nat) < 21 * nat 1
   \<and> (0::int) < 1
   \<and> seed (dict_values (classification_sweep sample_defaults 1 0) ! 35) = 36
   \<and> seed (dict_values (classification_sweep sample_defaults 1 0) ! 71) = 36
   \<and> tau (prior_knowledge (dict_values (classification_sweep sample_defaults 1 0) ! 35)) = 1
   \<and> tau (prior_knowledge (dict_values (classification_sweep sample_defaults 1 0) ! 71)) = 10
   \<and> seed (dict_values (classification_2d_sweep sample_defaults 1 0) ! 20) = 21
   \<and> seed (dict_values (classification_2d_sweep sample_defaults 1 0) ! 41) = 21
   \<and> \<not> distinct (map seed (dict_values (classification_sweep sample_defaults 1 0)))
   \<and> \<not> distinct (map seed (dict_values (classification_2d_sweep sample_defaults 1 0)))"
proof -
  note rep = classification_seeds_repeat [of 1 sample_defaults 0]
  have a: "(35::nat) < 36 * nat 1" and b: "(20::nat) < 21 * nat 1" and p: "(0::int) < 1"
    by simp_all
  from rep [THEN conjunct1, rule_format, OF a]
  have c: "seed (dict_values (classification_sweep sample_defaults 1 0) ! 35) = 36
         \<and> seed (dict_values (classification_sweep sample_defaults 1 0) ! 71) = 36
         \<and> tau (prior_knowledge (dict_values (classification_sweep sample_defaults 1 0) ! 35)) = 1
         \<and> tau (prior_knowledge (dict_values (classification_sweep sample_defaults 1 0) ! 71)) = 10"
    by (simp add: Let_def)
  from rep [THEN conjunct2, THEN conjunct1, rule_format, OF b]
  have d: "seed (dict_values (classification_2d_sweep sample_defaults 1 0) ! 20) = 21
         \<and> seed (dict_values (classification_2d_sweep sample_defaults 1 0) ! 41) = 21"
    by (simp add: Let_def)
  from rep [THEN conjunct2, THEN conjunct2, THEN conjunct1, rule_format, OF p]
  have n: "\<not> distinct (map seed (dict_values (classification_sweep sample_defaults 1 0)))
         \<and> \<not> distinct (map seed (dict_values (classification_2d_sweep sample_defaults 1 0)))" .
  from a b p c d n show ?thesis by simp
qed

section \<open>Filtering to unique configurations\<close>

lemma remdups_snoc: "remdups (ys @ [c]) = filter (\<lambda>x. x \<noteq> c) (remdups ys) @ [c]"
  by (induction ys) auto

lemma first_occurrences_Cons:
  "rev (remdups (rev (c # xs))) = c # filter (\<lambda>x. x \<noteq> c) (rev (remdups (rev xs)))"
  by (simp add: remdups_snoc rev_filter)

lemma filter_unique_fold:
  "fold (filter_unique_step f) cs (set new, new)
   = (set new \<union> {c \<in> set cs. f c},
      new @ filter (\<lambda>x. x \<notin> set new) (rev (remdups (rev (filter f cs)))))"
proof (induction cs arbitrary: new)
  case Nil
  then show ?case by simp
next
  case (Cons c cs)
  show ?case
  proof (cases "f c")
    case False
    then show ?thesis
      using Cons.IH [of new] by (auto simp: filter_unique_step_def)
  next
    case True
    show ?thesis
    proof (cases "c \<in> set new")
      case True
      then have "filter (\<lambda>x. x \<noteq> c \<and> x \<notin> set new) (rev (remdups (rev (filter f cs))))
                 = filter (\<lambda>x. x \<notin> set new) (rev (remdups (rev (filter f cs))))"
        by (intro filter_cong) auto
      with True \<open>f c\<close> show ?thesis
        using Cons.IH [of new]
        by (auto simp: filter_unique_step_def first_occurrences_Cons simp del: rev.simps)
    next
      case False
      have "filter (\<lambda>x. x \<notin> set (new @ [c])) (rev (remdups (rev (filter f cs))))
            = filter (\<lambda>x. x \<noteq> c \<and> x \<notin> set new) (rev (remdups (rev (filter f cs))))"
        by (intro filter_cong) auto
      with False \<open>f c\<close> show ?thesis
        using Cons.IH [of "new @ [c]"]
        by (auto simp: filter_unique_step_def first_occurrences_Cons simp del: rev.simps)
    qed
  qed
qed

lemma filter_unique_configs_eq:
  "filter_unique_configs configs filter_fn = rev (remdups (rev (filter filter_fn configs)))"
  using filter_unique_fold [of filter_fn configs "[]"] by (simp add: filter_unique_configs_def)

lemma dict_values_sweep_dict [simp]: "dict_values (sweep_dict name cs) = cs"
  by (simp add: sweep_dict_zip dict_values_def)

lemma dict_keys_sweep_dict [simp]:
  "dict_keys (sweep_dict name cs) = map (problem_id name) [0..<length cs]"
  by (simp add: sweep_dict_zip dict_keys_def)

lemma regression_test_configs:
  "filter (\<lambda>x. noise_std (prior_knowledge x) = Some (1 / 10)
                 \<and> input_dim (prior_knowledge x) = 10
                 \<and> num_train (prior_knowledge x) = 10
                 \<and> tau (prior_knowledge x) = 1) (regression_configs pk0 1 0)
   = [regression_config pk0 (10, 1, 1 / 10) 11]"
  by (simp add: regression_configs_def range_py_def regression_sweep_body_eq regression_config_def)

lemma regression_test_sweep_eq:
  "regression_test_sweep pk0 = [(''regression_test/0'', regression_config pk0 (10, 1, 1 / 10) 11)]"
proof -
  have "regression_test_sweep pk0
        = sweep_dict ''regression_test''
            (rev (remdups (rev [regression_config pk0 (10, 1, 1 / 10) 11])))"
    by (simp add: regression_test_sweep_def regression_sweep_def filter_unique_configs_eq
          regression_test_configs Let_def)
  then show ?thesis
    by (simp add: sweep_dict_zip problem_id_def SEPARATOR_def str_nat.simps digit_char_def)
qed

lemma classification_test_configs:
  "filter (\<lambda>x. temperature (prior_knowledge x) = Some (1 / 100)
                 \<and> tau (prior_knowledge x) = 1
                 \<and> input_dim (prior_knowledge x) = 2) (classification_configs pk0 1 0)
   = [classification_config pk0 1 (2, 1, 1 / 100) 1,
      classification_config pk0 1 (2, 10, 1 / 100) 4,
      classification_config pk0 1 (2, 100, 1 / 100) 7,
      classification_config pk0 1 (2, 1000, 1 / 100) 10]"
  by (simp add: classification_configs_def range_py_def classification_sweep_body_eq
        classification_config_def)

lemma classification_test_sweep_eq:
  "classification_test_sweep pk0 =
     [(''classification_test/0'', classification_config pk0 1 (2, 1, 1 / 100) 1),
      (''classification_test/1'', classification_config pk0 1 (2, 10, 1 / 100) 4),
      (''classification_test/2'', classification_config pk0 1 (2, 100, 1 / 100) 7),
      (''classification_test/3'', classification_config pk0 1 (2, 1000, 1 / 100) 10)]"
proof -
  have "classification_test_sweep pk0
        = sweep_dict ''classification_test''
            (rev (remdups (rev [classification_config pk0 1 (2, 1, 1 / 100) 1,
      classification_config pk0 1 (2, 10, 1 / 100) 4,
      classification_config pk0 1 (2, 100, 1 / 100) 7,
      classification_config pk0 1 (2, 1000, 1 / 100) 10])))"
    by (simp add: classification_test_sweep_def classification_sweep_def filter_unique_configs_eq
          classification_test_configs Let_def)
  also have "\<dots> = sweep_dict ''classification_test''
            [classification_config pk0 1 (2, 1, 1 / 100) 1,
      classification_config pk0 1 (2, 10, 1 / 100) 4,
      classification_config pk0 1 (2, 100, 1 / 100) 7,
      classification_config pk0 1 (2, 1000, 1 / 100) 10]"
    by (simp add: classification_config_def)
  finally show ?thesis
    by (simp add: sweep_dict_zip problem_id_def SEPARATOR_def str_nat.simps digit_char_def
          upt_rec [of 0] upt_rec [of "Suc _"])
qed

lemma classification_2d_test_configs:
  "filter (\<lambda>x. temperature (prior_knowledge x) = Some (1 / 100)
                 \<and> tau (prior_knowledge x) = 1) (classification_2d_configs pk0 1 0)
   = [classification_2d_config pk0 1 (1, 1 / 100) 1,
      classification_2d_config pk0 1 (3, 1 / 100) 4,
      classification_2d_config pk0 1 (10, 1 / 100) 7,
      classification_2d_config pk0 1 (30, 1 / 100) 10,
      classification_2d_config pk0 1 (100, 1 / 100) 13,
      classification_2d_config pk0 1 (300, 1 / 100) 16,
      classification_2d_config pk0 1 (1000, 1 / 100) 19]"
  by (simp add: classification_2d_configs_def range_py_def classification_2d_sweep_body_eq
        classification_2d_config_def)

lemma classification_2d_test_sweep_eq:
  "classification_2d_test_sweep pk0 =
     [(''classification_2d_test/0'', classification_2d_config pk0 1 (1, 1 / 100) 1),
      (''classification_2d_test/1'', classification_2d_config pk0 1 (3, 1 / 100) 4),
      (''classification_2d_test/2'', classification_2d_config pk0 1 (10, 1 / 100) 7),
      (''classification_2d_test/3'', classification_2d_config pk0 1 (30, 1 / 100) 10),
      (''classification_2d_test/4'', classification_2d_config pk0 1 (100, 1 / 100) 13),
      (''classification_2d_test/5'', classification_2d_config pk0 1 (300, 1 / 100) 16),
      (''classification_2d_test/6'', classification_2d_config pk0 1 (1000, 1 / 100) 19)]"
proof -
  have "classification_2d_test_sweep pk0
        = sweep_dict ''classification_2d_test''
            (rev (remdups (rev [classification_2d_config pk0 1 (1, 1 / 100) 1,
      classification_2d_config pk0 1 (3, 1 / 100) 4,
      classification_2d_config pk0 1 (10, 1 / 100) 7,
      classification_2d_config pk0 1 (30, 1 / 100) 10,
      classification_2d_config pk0 1 (100, 1 / 100) 13,
      classification_2d_config pk0 1 (300, 1 / 100) 16,
      classification_2d_config pk0 1 (1000, 1 / 100) 19])))"
    by (simp add: classification_2d_test_sweep_def classification_2d_sweep_def
          filter_unique_configs_eq classification_2d_test_configs Let_def)
  also have "\<dots> = sweep_dict ''classification_2d_test''
            [classification_2d_config pk0 1 (1, 1 / 100) 1,
      classification_2d_config pk0 1 (3, 1 / 100) 4,
      classification_2d_config pk0 1 (10, 1 / 100) 7,
      classification_2d_config pk0 1 (30, 1 / 100) 10,
      classification_2d_config pk0 1 (100, 1 / 100) 13,
      classification_2d_config pk0 1 (300, 1 / 100) 16,
      classification_2d_config pk0 1 (1000, 1 / 100) 19]"
    by (simp add: classification_2d_config_def)
  finally show ?thesis
    by (simp add: sweep_dict_zip problem_id_def SEPARATOR_def str_nat.simps digit_char_def
          upt_rec [of 0] upt_rec [of "Suc _"])
qed

lemma filter_unique_configs_set:
  "set (filter_unique_configs configs filter_fn) = {c \<in> set configs. filter_fn c}"
  by (simp add: filter_unique_configs_eq)

lemma filter_unique_configs_distinct: "distinct (filter_unique_configs configs filter_fn)"
  by (simp add: filter_unique_configs_eq)

lemma enn_paper_test_configs:
  "filter (\<lambda>x. noise_std (prior_knowledge x) = Some (1 / 10)) (regression_configs pk0 1 0)
   = [regression_config pk0 (1, 1, 1 / 10) 2,
      regression_config pk0 (1, 10, 1 / 10) 5,
      regression_config pk0 (1, 100, 1 / 10) 8,
      regression_config pk0 (10, 1, 1 / 10) 11,
      regression_config pk0 (10, 10, 1 / 10) 14,
      regression_config pk0 (10, 100, 1 / 10) 17,
      regression_config pk0 (100, 1, 1 / 10) 20,
      regression_config pk0 (100, 10, 1 / 10) 23,
      regression_config pk0 (100, 100, 1 / 10) 26]"
  by (simp add: regression_configs_def range_py_def regression_sweep_body_eq regression_config_def)

lemma enn_paper_test_unique:
  "filter_unique_configs (regression_configs pk0 1 0)
     (\<lambda>x. noise_std (prior_knowledge x) = Some (1 / 10))
   = [regression_config pk0 (1, 1, 1 / 10) 2,
      regression_config pk0 (1, 10, 1 / 10) 5,
      regression_config pk0 (1, 100, 1 / 10) 8,
      regression_config pk0 (10, 1, 1 / 10) 11,
      regression_config pk0 (10, 10, 1 / 10) 14,
      regression_config pk0 (10, 100, 1 / 10) 17,
      regression_config pk0 (100, 1, 1 / 10) 20,
      regression_config pk0 (100, 10, 1 / 10) 23,
      regression_config pk0 (100, 100, 1 / 10) 26]"
  unfolding filter_unique_configs_eq enn_paper_test_configs
  by (simp add: regression_config_def)

lemma enn_paper_test_sweep_eq:
  "enn_paper_test_sweep pk0 =
     [(''enn_paper_test/0'', (regression_config pk0 (1, 1, 1 / 10) 2)\<lparr>epistemic_only := True\<rparr>),
      (''enn_paper_test/1'', (regression_config pk0 (1, 10, 1 / 10) 5)\<lparr>epistemic_only := True\<rparr>),
      (''enn_paper_test/2'', (regression_config pk0 (1, 100, 1 / 10) 8)\<lparr>epistemic_only := True\<rparr>),
      (''enn_paper_test/3'', (regression_config pk0 (10, 1, 1 / 10) 11)\<lparr>epistemic_only := True\<rparr>),
      (''enn_paper_test/4'', (regression_config pk0 (10, 10, 1 / 10) 14)\<lparr>epistemic_only := True\<rparr>),
      (''enn_paper_test/5'', (regression_config pk0 (10, 100, 1 / 10) 17)\<lparr>epistemic_only := True\<rparr>),
      (''enn_paper_test/6'', (regression_config pk0 (100, 1, 1 / 10) 20)\<lparr>epistemic_only := True\<rparr>),
      (''enn_paper_test/7'', (regression_config pk0 (100, 10, 1 / 10) 23)\<lparr>epistemic_only := True\<rparr>),
      (''enn_paper_test/8'', (regression_config pk0 (100, 100, 1 / 10) 26)\<lparr>epistemic_only := True\<rparr>)]"
  by (simp add: enn_paper_test_sweep_def regression_sweep_def enn_paper_test_unique
        dict_of_items_def Let_def problem_id_def SEPARATOR_def str_nat.simps digit_char_def)

text \<open>
  C5. \<open>_filter_unique_configs\<close> keeps the configs that satisfy the filter, once each, in
  the order of their first occurrences. The reduced test sweeps apply it to the values of
  the full sweeps with \<open>num_seed = 1\<close> and their fixed filters, and number the result from 0
  under their own sweep name: \<open>regression_test_sweep\<close> has exactly one entry, with key
  \<open>regression_test/0\<close>, \<open>classification_test_sweep\<close> has exactly 4 entries and
  \<open>classification_2d_test_sweep\<close> exactly 7. \<open>enn_paper_test_sweep\<close> does the same on the
  regression sweep with the filter \<open>noise_std = 0.1\<close> and sets \<open>epistemic_only\<close> in each
  selected config; it has exactly 9 entries.
\<close>

theorem test_sweeps_filter_unique:
  "filter_unique_configs configs filter_fn = rev (remdups (rev (filter filter_fn configs)))
   \<and> distinct (filter_unique_configs configs filter_fn)
   \<and> set (filter_unique_configs configs filter_fn) = {c \<in> set configs. filter_fn c}
   \<and> dict_values (regression_test_sweep pk0)
       = rev (remdups (rev (filter
           (\<lambda>x. noise_std (prior_knowledge x) = Some (1 / 10)
                \<and> input_dim (prior_knowledge x) = 10
                \<and> num_train (prior_knowledge x) = 10
                \<and> tau (prior_knowledge x) = 1)
           (dict_values (regression_sweep pk0 1 0)))))
   \<and> dict_values (classification_test_sweep pk0)
       = rev (remdups (rev (filter
           (\<lambda>x. temperature (prior_knowledge x) = Some (1 / 100)
                \<and> tau (prior_knowledge x) = 1
                \<and> input_dim (prior_knowledge x) = 2)
           (dict_values (classification_sweep pk0 1 0)))))
   \<and> dict_values (classification_2d_test_sweep pk0)
       = rev (remdups (rev (filter
           (\<lambda>x. temperature (prior_knowledge x) = Some (1 / 100)
                \<and> tau (prior_knowledge x) = 1)
           (dict_values (classification_2d_sweep pk0 1 0)))))
   \<and> dict_values (enn_paper_test_sweep pk0)
       = map (\<lambda>problem_config. problem_config\<lparr>epistemic_only := True\<rparr>)
           (rev (remdups (rev (filter
             (\<lambda>x. noise_std (prior_knowledge x) = Some (1 / 10))
             (dict_values (regression_sweep pk0 1 0))))))
   \<and> length (regression_test_sweep pk0) = 1
   \<and> dict_keys (regression_test_sweep pk0) = [''regression_test/0'']
   \<and> length (classification_test_sweep pk0) = 4
   \<and> length (classification_2d_test_sweep pk0) = 7
   \<and> length (enn_paper_test_sweep pk0) = 9
   \<and> dict_keys (classification_test_sweep pk0) = map (problem_id ''classification_test'') [0..<4]
   \<and> dict_keys (classification_2d_test_sweep pk0) = map (problem_id ''classification_2d_test'') [0..<7]
   \<and> dict_keys (enn_paper_test_sweep pk0) = map (problem_id ''enn_paper_test'') [0..<9]"
proof -
  have r: "dict_values (regression_test_sweep pk0)
       = rev (remdups (rev (filter
           (\<lambda>x. noise_std (prior_knowledge x) = Some (1 / 10)
                \<and> input_dim (prior_knowledge x) = 10
                \<and> num_train (prior_knowledge x) = 10
                \<and> tau (prior_knowledge x) = 1)
           (dict_values (regression_sweep pk0 1 0)))))"
    by (simp add: regression_test_sweep_def filter_unique_configs_eq Let_def)
  have c: "dict_values (classification_test_sweep pk0)
       = rev (remdups (rev (filter
           (\<lambda>x. temperature (prior_knowledge x) = Some (1 / 100)
                \<and> tau (prior_knowledge x) = 1
                \<and> input_dim (prior_knowledge x) = 2)
           (dict_values (classification_sweep pk0 1 0)))))"
    by (simp add: classification_test_sweep_def filter_unique_configs_eq Let_def)
  have d: "dict_values (classification_2d_test_sweep pk0)
       = rev (remdups (rev (filter
           (\<lambda>x. temperature (prior_knowledge x) = Some (1 / 100)
                \<and> tau (prior_knowledge x) = 1)
           (dict_values (classification_2d_sweep pk0 1 0)))))"
    by (simp add: classification_2d_test_sweep_def filter_unique_configs_eq Let_def)
  have e: "dict_values (enn_paper_test_sweep pk0)
       = map (\<lambda>problem_config. problem_config\<lparr>epistemic_only := True\<rparr>)
           (rev (remdups (rev (filter
             (\<lambda>x. noise_std (prior_knowledge x) = Some (1 / 10))
             (dict_values (regression_sweep pk0 1 0))))))"
    by (simp add: enn_paper_test_sweep_def filter_unique_configs_eq Let_def enumerated_dict_zip
          dict_values_def)
  have lr: "length (regression_test_sweep pk0) = 1"
    and kr: "dict_keys (regression_test_sweep pk0) = [''regression_test/0'']"
    by (simp_all add: regression_test_sweep_eq dict_keys_def)
  have lc: "length (classification_test_sweep pk0) = 4"
    by (simp add: classification_test_sweep_eq)
  have ld: "length (classification_2d_test_sweep pk0) = 7"
    by (simp add: classification_2d_test_sweep_eq)
  have le: "length (enn_paper_test_sweep pk0) = 9"
    by (simp add: enn_paper_test_sweep_eq)
  have kc: "dict_keys (classification_test_sweep pk0) = map (problem_id ''classification_test'') [0..<4]"
    using lc
    by (simp only: classification_test_sweep_def Let_def sweep_dict_keys enumerated_dict_keys)
  have kd: "dict_keys (classification_2d_test_sweep pk0) = map (problem_id ''classification_2d_test'') [0..<7]"
    using ld
    by (simp only: classification_2d_test_sweep_def Let_def sweep_dict_keys enumerated_dict_keys)
  have ke: "dict_keys (enn_paper_test_sweep pk0) = map (problem_id ''enn_paper_test'') [0..<9]"
    using le
    by (simp only: enn_paper_test_sweep_def Let_def sweep_dict_keys enumerated_dict_keys)
  note fe = filter_unique_configs_eq [of configs filter_fn]
  note fd = filter_unique_configs_distinct [of configs filter_fn]
  note fs = filter_unique_configs_set [of configs filter_fn]
  show ?thesis
    by (rule conjI [OF fe conjI [OF fd conjI [OF fs conjI [OF r conjI [OF c conjI [OF d conjI [OF e conjI [OF lr conjI [OF kr conjI [OF lc conjI [OF ld conjI [OF le conjI [OF kc conjI [OF kd ke]]]]]]]]]]]]]])
qed

theorem test_sweeps_filter_unique_witness:
  "filter_unique_configs [3, 1, 2, 1, 3, 2, 4 :: nat] (\<lambda>x. x \<noteq> 2) = [3, 1, 4]
   \<and> length (regression_test_sweep sample_defaults) = 1
   \<and> length (classification_test_sweep sample_defaults) = 4
   \<and> length (classification_2d_test_sweep sample_defaults) = 7
   \<and> length (enn_paper_test_sweep sample_defaults) = 9
   \<and> dict_keys (enn_paper_test_sweep sample_defaults) ! 8 = ''enn_paper_test/8''"
proof -
  note t = test_sweeps_filter_unique
             [of "[3, 1, 2, 1, 3, 2, 4 :: nat]" "\<lambda>x. x \<noteq> 2" sample_defaults]
  have k: "problem_id ''enn_paper_test'' 8 = ''enn_paper_test/8''"
    by (simp add: problem_id_def SEPARATOR_def str_nat.simps digit_char_def)
  from t have f: "filter_unique_configs [3, 1, 2, 1, 3, 2, 4 :: nat] (\<lambda>x. x \<noteq> 2) = [3, 1, 4]"
    by simp
  from t have l: "length (regression_test_sweep sample_defaults) = 1"
    "length (classification_test_sweep sample_defaults) = 4"
    "length (classification_2d_test_sweep sample_defaults) = 7"
    "length (enn_paper_test_sweep sample_defaults) = 9"
    by simp_all
  from t have "dict_keys (enn_paper_test_sweep sample_defaults)
               = map (problem_id ''enn_paper_test'') [0..<9]"
    by simp
  then have e: "dict_keys (enn_paper_test_sweep sample_defaults) ! 8 = ''enn_paper_test/8''"
    using k by simp
  show ?thesis
    by (rule conjI [OF f conjI [OF l(1) conjI [OF l(2) conjI [OF l(3) conjI [OF l(4) e]]]]])
qed

section \<open>SGMCMC sweeps\<close>

lemma sgld_sweep_eq:
  "sgld_sweep cfg0
   = map (\<lambda>(learning_rate', prior_variance').
            cfg0\<lparr>learning_rate := learning_rate', prior_variance := prior_variance',
                 adaptive_prior_variance := True\<rparr>) sgmcmc_grid"
  by (simp add: sgld_sweep_def sgmcmc_grid_def)

lemma momentum_sgld_sweep_eq:
  "momentum_sgld_sweep cfg0
   = map (\<lambda>(learning_rate', prior_variance').
            cfg0\<lparr>learning_rate := learning_rate', prior_variance := prior_variance',
                 adaptive_prior_variance := True, alg_temperature := Some 1,
                 momentum_decay := Some (9 / 10)\<rparr>) sgmcmc_grid"
  by (simp add: momentum_sgld_sweep_def sgmcmc_grid_def)

lemma length_sgmcmc_grid: "length sgmcmc_grid = 18"
  by (simp add: sgmcmc_grid_def)

text \<open>
  C6. \<open>combined_sweep\<close> returns exactly 36 configs: the 18 of \<open>sgld_sweep\<close> followed by the
  18 of \<open>momentum_sgld_sweep\<close>. Each part runs through \<open>learning_rate\<close> in
  \<open>[5e-4, 1e-3, 5e-3]\<close> (outer loop) and \<open>prior_variance\<close> in \<open>[0.05, 0.1, 0.5, 1, 2, 10]\<close>
  (inner loop) with \<open>adaptive_prior_variance = True\<close>; the momentum part sets in addition
  \<open>alg_temperature = 1\<close> and \<open>momentum_decay = 0.9\<close>.
\<close>

theorem combined_sweep_enumeration:
  "combined_sweep cfg0 = sgld_sweep cfg0 @ momentum_sgld_sweep cfg0
   \<and> length (combined_sweep cfg0) = 36
   \<and> length (sgld_sweep cfg0) = 18
   \<and> length (momentum_sgld_sweep cfg0) = 18
   \<and> sgld_sweep cfg0
       = map (\<lambda>(learning_rate', prior_variance').
                cfg0\<lparr>learning_rate := learning_rate', prior_variance := prior_variance',
                     adaptive_prior_variance := True\<rparr>) sgmcmc_grid
   \<and> momentum_sgld_sweep cfg0
       = map (\<lambda>(learning_rate', prior_variance').
                cfg0\<lparr>learning_rate := learning_rate', prior_variance := prior_variance',
                     adaptive_prior_variance := True, alg_temperature := Some 1,
                     momentum_decay := Some (9 / 10)\<rparr>) sgmcmc_grid
   \<and> momentum_sgld_sweep cfg0
       = map (\<lambda>c. c\<lparr>alg_temperature := Some 1, momentum_decay := Some (9 / 10)\<rparr>)
           (sgld_sweep cfg0)"
proof -
  have "momentum_sgld_sweep cfg0
        = map (\<lambda>c. c\<lparr>alg_temperature := Some 1, momentum_decay := Some (9 / 10)\<rparr>)
            (sgld_sweep cfg0)"
    by (simp add: sgld_sweep_eq momentum_sgld_sweep_eq case_prod_unfold)
  moreover have "length (sgld_sweep cfg0) = 18" "length (momentum_sgld_sweep cfg0) = 18"
    by (simp_all add: sgld_sweep_eq momentum_sgld_sweep_eq length_sgmcmc_grid)
  ultimately show ?thesis
    using sgld_sweep_eq [of cfg0] momentum_sgld_sweep_eq [of cfg0]
    by (simp add: combined_sweep_def)
qed

theorem combined_sweep_enumeration_witness:
  "length (combined_sweep sample_sgmcmc) = 36
   \<and> combined_sweep sample_sgmcmc ! 0
       = \<lparr>learning_rate = 5 / 10000, prior_variance = 5 / 100, adaptive_prior_variance = True,
          alg_temperature = None, momentum_decay = None\<rparr>
   \<and> combined_sweep sample_sgmcmc ! 35
       = \<lparr>learning_rate = 5 / 1000, prior_variance = 10, adaptive_prior_variance = True,
          alg_temperature = Some 1, momentum_decay = Some (9 / 10)\<rparr>"
proof -
  note e = combined_sweep_enumeration [of sample_sgmcmc]
  from e [THEN conjunct2, THEN conjunct1]
  have l: "length (combined_sweep sample_sgmcmc) = 36" .
  from e have c: "combined_sweep sample_sgmcmc
      = map (\<lambda>(learning_rate', prior_variance').
                sample_sgmcmc\<lparr>learning_rate := learning_rate', prior_variance := prior_variance',
                     adaptive_prior_variance := True\<rparr>) sgmcmc_grid
        @ map (\<lambda>(learning_rate', prior_variance').
                sample_sgmcmc\<lparr>learning_rate := learning_rate', prior_variance := prior_variance',
                     adaptive_prior_variance := True, alg_temperature := Some 1,
                     momentum_decay := Some (9 / 10)\<rparr>) sgmcmc_grid"
    by simp
  from l show ?thesis
    unfolding c by (simp add: sgmcmc_grid_def sample_sgmcmc_def)
qed

section \<open>The sweep of the ENN paper\<close>

lemma map_of_problem_ids:
  assumes "length xs = n"
  shows "map_of (zip (map (problem_id name) [0..<n]) xs) (problem_id name i)
         = (if i < n then Some (xs ! i) else None)"
proof (cases "i < n")
  case True
  have "map_of (zip (map (problem_id name) [0..<n]) xs) (map (problem_id name) [0..<n] ! i)
        = Some (xs ! i)"
    using assms True by (intro map_of_zip_nth) (simp_all add: distinct_problem_ids)
  with True show ?thesis by simp
next
  case False
  then have "problem_id name i \<notin> set (map (problem_id name) [0..<n])"
    by (auto simp: problem_id_inject)
  with False assms show ?thesis
    by (simp add: map_of_eq_None_iff [THEN iffD2] del: set_map set_upt)
qed

lemma length_regression_configs [simp]:
  "length (regression_configs pk0 num_seed initial_seed) = 27 * nat num_seed"
  by (simp add: regression_configs_eq)

lemma enn_paper_sweep_zip:
  "enn_paper_sweep pk0
   = zip (map (problem_id ''enn_paper'') [0..<270])
       (map (\<lambda>c. c\<lparr>epistemic_only := True\<rparr>) (regression_configs pk0 10 0))"
  by (simp add: enn_paper_sweep_def Let_def enumerated_dict_zip regression_sweep_def)

lemma regression_sweep_default_zip:
  "regression_sweep pk0 10 0
   = zip (map (problem_id ''regression'') [0..<270]) (regression_configs pk0 10 0)"
  by (simp add: regression_sweep_def sweep_dict_zip)

text \<open>
  C10. For every index \<open>i\<close>, the config under \<open>enn_paper/{i}\<close> in \<open>enn_paper_sweep()\<close> is the
  config under \<open>regression/{i}\<close> in \<open>regression_sweep()\<close> with \<open>epistemic_only\<close> replaced by
  \<open>True\<close> and every other field unchanged; both keys are present exactly for \<open>i < 270\<close>.
\<close>

theorem enn_paper_sweep_frame:
  "dict_keys (enn_paper_sweep pk0) = map (problem_id ''enn_paper'') [0..<270]
   \<and> dict_keys (regression_sweep pk0 10 0) = map (problem_id ''regression'') [0..<270]
   \<and> (\<forall>i. map_of (enn_paper_sweep pk0) (problem_id ''enn_paper'' i)
           = map_option (\<lambda>c. c\<lparr>epistemic_only := True\<rparr>)
               (map_of (regression_sweep pk0 10 0) (problem_id ''regression'' i)))
   \<and> (\<forall>i < 270. \<exists>c e.
         map_of (regression_sweep pk0 10 0) (problem_id ''regression'' i) = Some c
       \<and> map_of (enn_paper_sweep pk0) (problem_id ''enn_paper'' i) = Some e
       \<and> e = c\<lparr>epistemic_only := True\<rparr>
       \<and> epistemic_only e = True
       \<and> prior_knowledge e = prior_knowledge c \<and> seed e = seed c
       \<and> logit_ctor e = logit_ctor c \<and> test_distribution e = test_distribution c
       \<and> num_test_seeds e = num_test_seeds c \<and> num_enn_samples e = num_enn_samples c
       \<and> num_test_cache e = num_test_cache c)"
proof -
  let ?cs = "regression_configs pk0 10 0"
  have len: "length ?cs = 270" by simp
  have reg: "map_of (regression_sweep pk0 10 0) (problem_id ''regression'' i)
             = (if i < 270 then Some (?cs ! i) else None)" for i
    unfolding regression_sweep_default_zip by (rule map_of_problem_ids) (rule len)
  have enn: "map_of (enn_paper_sweep pk0) (problem_id ''enn_paper'' i)
             = (if i < 270 then Some ((?cs ! i)\<lparr>epistemic_only := True\<rparr>) else None)" for i
    unfolding enn_paper_sweep_zip
    by (subst map_of_problem_ids) (simp_all add: len)
  have k1: "dict_keys (enn_paper_sweep pk0) = map (problem_id ''enn_paper'') [0..<270]"
    by (simp add: enn_paper_sweep_zip dict_keys_def)
  have k2: "dict_keys (regression_sweep pk0 10 0) = map (problem_id ''regression'') [0..<270]"
    by (simp add: regression_sweep_default_zip dict_keys_def)
  show ?thesis
    using k1 k2 by (simp add: reg enn)
qed

theorem enn_paper_sweep_frame_witness:
  "(269::nat) < 270
   \<and> map_of (regression_sweep sample_defaults 10 0) ''regression/269''
       = Some (regression_config sample_defaults (100, 100, 1) 270)
   \<and> map_of (enn_paper_sweep sample_defaults) ''enn_paper/269''
       = Some ((regression_config sample_defaults (100, 100, 1) 270)\<lparr>epistemic_only := True\<rparr>)"
proof -
  have i: "(269::nat) < 270" by simp
  have k: "problem_id ''regression'' 269 = ''regression/269''"
          "problem_id ''enn_paper'' 269 = ''enn_paper/269''"
    by (simp_all add: problem_id_def SEPARATOR_def str_nat.simps digit_char_def)
  have "dict_values (regression_sweep sample_defaults 10 0) ! 269
        = regression_config sample_defaults (regression_grid ! (269 div nat 10)) (0 + 1 + int 269)"
    by (simp add: regression_values)
  moreover have "regression_grid ! (269 div nat 10) = (100, 100, 1)"
    by (simp add: regression_grid_def)
  ultimately have v: "regression_configs sample_defaults 10 0 ! 269
        = regression_config sample_defaults (100, 100, 1) 270"
    by (simp add: regression_sweep_def)
  have "map_of (regression_sweep sample_defaults 10 0) (problem_id ''regression'' 269)
        = Some (regression_configs sample_defaults 10 0 ! 269)"
    unfolding regression_sweep_default_zip by (subst map_of_problem_ids) simp_all
  with v have r: "map_of (regression_sweep sample_defaults 10 0) ''regression/269''
        = Some (regression_config sample_defaults (100, 100, 1) 270)"
    by (simp add: k)
  from enn_paper_sweep_frame [of sample_defaults, THEN conjunct2, THEN conjunct2, THEN conjunct2,
      rule_format, OF i] r
  have "map_of (enn_paper_sweep sample_defaults) ''enn_paper/269''
       = Some ((regression_config sample_defaults (100, 100, 1) 270)\<lparr>epistemic_only := True\<rparr>)"
    by (auto simp: k)
  with i r show ?thesis by simp
qed

section \<open>Merging without overwriting\<close>








section \<open>The module-level settings\<close>









end
